theory Spec2Isabelle
  imports Complex_Main "HOL-Library.Multiset"
begin

section \<open>JavaScript strings\<close>

text \<open>
  A JavaScript string is a sequence of UTF-16 code units. The literals of the sources
  that are plain ASCII are written \<open>str ''...''\<close>; the Hindi templates are given by
  their code units.
\<close>

type_synonym jsstring = "nat list"

definition str :: "string \<Rightarrow> jsstring" where
  "str s = map of_char s"

text \<open>
  \<open>String.prototype.toUpperCase\<close> and \<open>toLowerCase\<close> are the locale-independent
  Unicode case conversions. On ASCII they exchange \<open>a..z\<close> and \<open>A..Z\<close> and leave every
  other unit alone. What they do to a unit outside ASCII (one unit may become several,
  and the result may depend on the neighbours) is a table of the runtime, not of this
  repository: it is the parameter \<open>cm\<close>, where \<open>cm s i\<close> is what replaces the unit at
  position \<open>i\<close> of \<open>s\<close>. Every theorem below holds for every such table.
\<close>

type_synonym case_map = "jsstring \<Rightarrow> nat \<Rightarrow> jsstring"

definition upperUnit :: "nat \<Rightarrow> nat" where
  "upperUnit c = (if 97 \<le> c \<and> c \<le> 122 then c - 32 else c)"

definition lowerUnit :: "nat \<Rightarrow> nat" where
  "lowerUnit c = (if 65 \<le> c \<and> c \<le> 90 then c + 32 else c)"

definition toUpperCase :: "case_map \<Rightarrow> jsstring \<Rightarrow> jsstring" where
  "toUpperCase cm s =
     concat (map (\<lambda>(i, c). if c < 128 then [upperUnit c] else cm s i) (enumerate 0 s))"

definition toLowerCase :: "case_map \<Rightarrow> jsstring \<Rightarrow> jsstring" where
  "toLowerCase cm s =
     concat (map (\<lambda>(i, c). if c < 128 then [lowerUnit c] else cm s i) (enumerate 0 s))"

text \<open>The lower-casing of the part \<open>xs\<close> of \<open>s\<close> that starts at position \<open>n\<close>; the
  whole of \<open>toLowerCase cm s\<close> is \<open>lowerFrom cm s 0 s\<close>.\<close>

definition lowerFrom :: "case_map \<Rightarrow> jsstring \<Rightarrow> nat \<Rightarrow> jsstring \<Rightarrow> jsstring" where
  "lowerFrom cm s n xs =
     concat (map (\<lambda>(i, c). if c < 128 then [lowerUnit c] else cm s i) (enumerate n xs))"

text \<open>
  \<open>String.prototype.trim\<close> removes leading and trailing WhiteSpace and LineTerminator
  units: TAB, LF, VT, FF, CR, SP, NBSP, U+1680, U+2000..U+200A, U+2028, U+2029, U+202F,
  U+205F, U+3000 and U+FEFF.
\<close>

definition isWhiteSpace :: "nat \<Rightarrow> bool" where
  "isWhiteSpace c =
     ((9 \<le> c \<and> c \<le> 13) \<or> c = 32 \<or> c = 160 \<or> c = 5760 \<or> (8192 \<le> c \<and> c \<le> 8202) \<or>
      c = 8232 \<or> c = 8233 \<or> c = 8239 \<or> c = 8287 \<or> c = 12288 \<or> c = 65279)"

definition trim :: "jsstring \<Rightarrow> jsstring" where
  "trim s = rev (dropWhile isWhiteSpace (rev (dropWhile isWhiteSpace s)))"

text \<open>\<open>s.replace(/[\x00-\x1f\x7f]/g, '')\<close>: every unit of the class is deleted.\<close>

definition isControl :: "nat \<Rightarrow> bool" where
  "isControl c = (c \<le> 31 \<or> c = 127)"

definition stripControl :: "jsstring \<Rightarrow> jsstring" where
  "stripControl s = filter (\<lambda>c. \<not> isControl c) s"

text \<open>\<open>s.includes(w)\<close>: \<open>w\<close> occurs in \<open>s\<close> as a contiguous run.\<close>

fun startsWith :: "jsstring \<Rightarrow> jsstring \<Rightarrow> bool" where
  "startsWith s [] = True"
| "startsWith [] (w # ws) = False"
| "startsWith (c # cs) (w # ws) = (c = w \<and> startsWith cs ws)"

fun includes_str :: "jsstring \<Rightarrow> jsstring \<Rightarrow> bool" where
  "includes_str [] w = (w = [])"
| "includes_str (c # cs) w = (startsWith (c # cs) w \<or> includes_str cs w)"

text \<open>\<open>xs.join(sep)\<close> on an array whose elements may be \<open>undefined\<close> (printed as the
  empty string).\<close>

fun join :: "jsstring \<Rightarrow> jsstring option list \<Rightarrow> jsstring" where
  "join sep [] = []"
| "join sep [x] = (case x of None \<Rightarrow> [] | Some s \<Rightarrow> s)"
| "join sep (x # y # ys) = (case x of None \<Rightarrow> [] | Some s \<Rightarrow> s) @ sep @ join sep (y # ys)"


section \<open>Input sanitization (src/lib/gemini.ts)\<close>

definition ALLOWED_RISK_LEVELS :: "jsstring list" where
  "ALLOWED_RISK_LEVELS = [str ''HIGH'', str ''MEDIUM'', str ''LOW'']"

definition ALLOWED_REASON_CODES :: "jsstring list" where
  "ALLOWED_REASON_CODES =
     [str ''high_recent_activity'', str ''multiple_dealers'', str ''cross_district'',
      str ''high_lifetime_usage'', str ''normal'']"

text \<open>
  \<open>riskLevel?.toUpperCase()?.trim() || ''\<close>: the parameter is a string, so the optional
  chain never short-circuits, and \<open>|| ''\<close> replaces the only falsy string by itself.
\<close>

definition sanitizeRiskLevel :: "case_map \<Rightarrow> jsstring \<Rightarrow> jsstring" where
  "sanitizeRiskLevel cm riskLevel =
     (let normalized = trim (toUpperCase cm riskLevel) in
      if normalized \<in> set ALLOWED_RISK_LEVELS then normalized else str ''UNKNOWN'')"

text \<open>
  \<open>code?.toLowerCase()?.trim()?.replace(/[\x00-\x1f\x7f]/g, '') || ''\<close>, for an element
  that is a string.
\<close>

definition cleanCode :: "case_map \<Rightarrow> jsstring \<Rightarrow> jsstring" where
  "cleanCode cm code = stripControl (trim (toLowerCase cm code))"

text \<open>
  The callback of \<open>reasonCodes.map\<close>: \<open>None\<close> is the \<open>null\<close> that the following
  \<open>filter\<close> removes.
\<close>

definition validateCode :: "case_map \<Rightarrow> jsstring \<Rightarrow> jsstring option" where
  "validateCode cm code =
     (let cleaned = cleanCode cm code in
      if cleaned \<in> set ALLOWED_REASON_CODES then Some cleaned else None)"

text \<open>The parameter is an array of strings, so the \<open>Array.isArray\<close> guard is passed.\<close>

definition sanitizeReasonCodes :: "case_map \<Rightarrow> jsstring list \<Rightarrow> jsstring list" where
  "sanitizeReasonCodes cm reasonCodes =
     (let sanitized = List.map_filter (validateCode cm) reasonCodes in
      if length sanitized > 0 then sanitized else [str ''normal''])"


section \<open>Reason codes from flags (src/lib/gemini.ts)\<close>

record flags =
  flag_high_recent_activity :: bool
  flag_multiple_dealers :: bool
  flag_cross_district :: bool
  flag_high_lifetime_usage :: bool

text \<open>Each \<open>reasons.push(c)\<close> appends \<open>c\<close> to the array built so far.\<close>

definition flagsToReasonCodes :: "flags \<Rightarrow> jsstring list" where
  "flagsToReasonCodes fl =
     (let reasons = [];
          reasons = (if flag_high_recent_activity fl
                     then reasons @ [str ''high_recent_activity''] else reasons);
          reasons = (if flag_multiple_dealers fl
                     then reasons @ [str ''multiple_dealers''] else reasons);
          reasons = (if flag_cross_district fl
                     then reasons @ [str ''cross_district''] else reasons);
          reasons = (if flag_high_lifetime_usage fl
                     then reasons @ [str ''high_lifetime_usage''] else reasons);
          reasons = (if length reasons = 0 then reasons @ [str ''normal''] else reasons)
      in reasons)"


section \<open>Explanation templates (src/lib/gemini.ts)\<close>

datatype SupportedLanguage = En | Hi | Hinglish

definition DEFAULT_LANGUAGE :: SupportedLanguage where
  "DEFAULT_LANGUAGE = En"

text \<open>The five Hindi sentences of \<open>REASON_TEMPLATES.hi\<close>, as UTF-16 code units.\<close>

definition hi_high_recent_activity :: jsstring where
  "hi_high_recent_activity =
     [2346, 2367, 2331, 2354, 2375, 32, 51, 48, 32, 2342, 2367, 2344, 2379, 2306, 32, 2350,
      2375, 2306, 32, 2309, 2360, 2366, 2350, 2366, 2344, 2381, 2351, 32, 2352, 2370, 2346,
      32, 2360, 2375, 32, 2309, 2343, 2367, 2325, 32, 2319, 2354, 2346, 2368, 2332, 2368,
      32, 2352, 2367, 2347, 2367, 2354, 32, 2346, 2366, 2319, 32, 2327, 2319]"

definition hi_multiple_dealers :: jsstring where
  "hi_multiple_dealers =
     [2325, 2350, 32, 2360, 2350, 2351, 32, 2350, 2375, 2306, 32, 2319, 2325, 2366, 2343,
      2367, 2325, 32, 2337, 2368, 2354, 2352, 2379, 2306, 32, 2360, 2375, 32, 2352, 2367,
      2347, 2367, 2354, 32, 2342, 2352, 2381, 2332, 32, 2325, 2367, 2319, 32, 2327, 2319]"

definition hi_cross_district :: jsstring where
  "hi_cross_district =
     [2357, 2367, 2349, 2367, 2344, 2381, 2344, 32, 2332, 2367, 2354, 2379, 2306, 32, 2360,
      2375, 32, 2319, 2354, 2346, 2368, 2332, 2368, 32, 2352, 2367, 2347, 2367, 2354, 32,
      2346, 2366, 2319, 32, 2327, 2319]"

definition hi_high_lifetime_usage :: jsstring where
  "hi_high_lifetime_usage =
     [2325, 2381, 2359, 2375, 2340, 2381, 2352, 2368, 2351, 32, 2350, 2366, 2344, 2325,
      2379, 2306, 32, 2325, 2368, 32, 2340, 2369, 2354, 2344, 2366, 32, 2350, 2375, 2306,
      32, 2309, 2346, 2375, 2325, 2381, 2359, 2366, 32, 2360, 2375, 32, 2309, 2343, 2367,
      2325, 32, 2332, 2368, 2357, 2344, 2325, 2366, 2354, 32, 2352, 2367, 2347, 2367, 2354,
      32, 2360, 2306, 2326, 2381, 2351, 2366]"

definition hi_normal :: jsstring where
  "hi_normal =
     [2352, 2367, 2347, 2367, 2354, 32, 2357, 2381, 2351, 2357, 2361, 2366, 2352, 32, 2320,
      2340, 2367, 2361, 2366, 2360, 2367, 2325, 32, 2324, 2352, 32, 2325, 2381, 2359, 2375,
      2340, 2381, 2352, 2368, 2351, 32, 2350, 2366, 2344, 2325, 2379, 2306, 32, 2325, 2375,
      32, 2309, 2344, 2369, 2352, 2370, 2346, 32, 2361, 2376]"

text \<open>
  \<open>REASON_TEMPLATES\<close>: for each language, the object from reason code to sentence, as
  the list of its own properties. A \<open>SupportedLanguage\<close> always selects one of the three
  objects, so the \<open>|| REASON_TEMPLATES[DEFAULT_LANGUAGE]\<close> of \<open>getStaticExplanations\<close>
  keeps the object selected.
\<close>

fun REASON_TEMPLATES :: "SupportedLanguage \<Rightarrow> (jsstring \<times> jsstring) list" where
  "REASON_TEMPLATES En =
     [(str ''high_recent_activity'',
         str ''Unusually high number of LPG refills detected in the last 30 days''),
      (str ''multiple_dealers'',
         str ''Refills recorded from multiple dealers in short time period''),
      (str ''cross_district'',
         str ''LPG refills detected across different districts''),
      (str ''high_lifetime_usage'',
         str ''Higher-than-expected lifetime refill count compared to regional norms''),
      (str ''normal'',
         str ''Refill behavior aligns with historical and regional norms'')]"
| "REASON_TEMPLATES Hi =
     [(str ''high_recent_activity'', hi_high_recent_activity),
      (str ''multiple_dealers'', hi_multiple_dealers),
      (str ''cross_district'', hi_cross_district),
      (str ''high_lifetime_usage'', hi_high_lifetime_usage),
      (str ''normal'', hi_normal)]"
| "REASON_TEMPLATES Hinglish =
     [(str ''high_recent_activity'',
         str ''Pichhle 30 dinon mein unusually zyada LPG refills detect hui hain''),
      (str ''multiple_dealers'',
         str ''Multiple dealers se short time mein refills recorded hain''),
      (str ''cross_district'',
         str ''Alag-alag districts se LPG refills detect hui hain''),
      (str ''high_lifetime_usage'',
         str ''Regional norms ki tulna mein lifetime refill count zyada hai''),
      (str ''normal'',
         str ''Refill behavior historical aur regional norms ke according hai'')]"

text \<open>\<open>a || b\<close> on values that are a string or \<open>undefined\<close> (\<open>None\<close>): the empty
  string and \<open>undefined\<close> are falsy.\<close>

definition or_else :: "jsstring option \<Rightarrow> jsstring option \<Rightarrow> jsstring option" where
  "or_else a b = (case a of None \<Rightarrow> b | Some s \<Rightarrow> if s = [] then b else Some s)"

text \<open>
  \<open>templates[code] || templates.normal\<close>, for a code that is not the name of a member
  of \<open>Object.prototype\<close> (such as \<open>constructor\<close>): for those names the source finds
  the inherited member, which is not a string. The generator only looks up sanitized
  codes, which are in the allowlist and so are own properties of the table.
\<close>

definition getStaticExplanations ::
  "jsstring list \<Rightarrow> SupportedLanguage \<Rightarrow> jsstring option list" where
  "getStaticExplanations reasonCodes language =
     (let templates = REASON_TEMPLATES language in
      map (\<lambda>code. or_else (map_of templates code) (map_of templates (str ''normal'')))
        reasonCodes)"


section \<open>The generation service and its reply\<close>

text \<open>
  What \<open>JSON.parse\<close> can return. A property of an object is looked up among its own
  properties, the last of two equal keys winning; arrays, strings, numbers and booleans
  have none of the properties \<open>candidates\<close>, \<open>content\<close>, \<open>parts\<close>, \<open>text\<close>.
\<close>

datatype json =
    JNull
  | JBool bool
  | JNum real
  | JStr jsstring
  | JArr "json list"
  | JObj "(jsstring \<times> json) list"

text \<open>\<open>v.key\<close> for a value \<open>v\<close> that is neither \<open>null\<close> nor \<open>undefined\<close>;
  \<open>None\<close> is \<open>undefined\<close>.\<close>

definition getProp :: "jsstring \<Rightarrow> json \<Rightarrow> json option" where
  "getProp key v = (case v of JObj kvs \<Rightarrow> map_of (rev kvs) key | _ \<Rightarrow> None)"

text \<open>\<open>v[0]\<close>: the first element of an array, the first unit of a string, the property
  \<open>0\<close> of an object.\<close>

definition index0 :: "json \<Rightarrow> json option" where
  "index0 v =
     (case v of
        JArr xs \<Rightarrow> (case xs of [] \<Rightarrow> None | x # _ \<Rightarrow> Some x)
      | JStr s \<Rightarrow> (case s of [] \<Rightarrow> None | c # _ \<Rightarrow> Some (JStr [c]))
      | JObj kvs \<Rightarrow> map_of (rev kvs) (str ''0'')
      | _ \<Rightarrow> None)"

text \<open>\<open>v?.f\<close>: \<open>undefined\<close> when \<open>v\<close> is \<open>null\<close> or \<open>undefined\<close>.\<close>

definition opt_chain :: "json option \<Rightarrow> (json \<Rightarrow> json option) \<Rightarrow> json option" where
  "opt_chain v f = (case v of None \<Rightarrow> None | Some JNull \<Rightarrow> None | Some x \<Rightarrow> f x)"

definition truthy :: "json \<Rightarrow> bool" where
  "truthy v =
     (case v of JNull \<Rightarrow> False | JBool b \<Rightarrow> b | JNum n \<Rightarrow> n \<noteq> 0 | JStr s \<Rightarrow> s \<noteq> []
      | JArr _ \<Rightarrow> True | JObj _ \<Rightarrow> True)"

text \<open>What a \<open>try\<close> block can catch here, by the name of the error.\<close>

datatype js_error = AbortError | TypeError | SyntaxError

text \<open>
  The reply of \<open>fetch\<close>: \<open>response.ok\<close>, \<open>response.status\<close> and what
  \<open>response.json()\<close> resolves to (or rejects with). \<open>fetch\<close> itself rejects with
  \<open>AbortError\<close> when the timeout aborts it and with \<open>TypeError\<close> on a network failure.
  Every awaited promise of the runtime settles: the service is a function from the
  prompt it is sent to the outcome of the call.
\<close>

record http_response =
  ok :: bool
  status :: nat
  json_body :: "js_error + json"

type_synonym service = "jsstring \<Rightarrow> js_error + http_response"


section \<open>generateGeminiExplanation (src/lib/gemini.ts)\<close>

definition languageMap :: "SupportedLanguage \<Rightarrow> jsstring" where
  "languageMap language =
     (case language of
        En \<Rightarrow> str ''English (formal, administrative)''
      | Hi \<Rightarrow> str ''Hindi (formal, government style)''
      | Hinglish \<Rightarrow> str ''Hinglish (simple Hindi + English mix)'')"

definition prompt :: "jsstring \<Rightarrow> jsstring list \<Rightarrow> SupportedLanguage \<Rightarrow> jsstring" where
  \<open>prompt safeRiskLevel safeReasonCodes language =
     join [10] (map Some
       [str ''You are generating explanations for a government audit dashboard.'',
        [],
        str ''Rules:'',
        str ''- Do NOT add new reasons'',
        str ''- Do NOT infer intent or fraud'',
        str ''- Do NOT mention machine learning or prediction'',
        str ''- Do NOT use words like "suspicious", "fraud", "illegal", "criminal"'',
        str ''- Use neutral, administrative language'',
        [],
        str ''Risk Level: '' @ safeRiskLevel,
        str ''Reasons:'',
        join [10] (map (\<lambda>r. Some (str ''- '' @ r)) safeReasonCodes),
        [],
        str ''Output Language: '' @ languageMap language,
        str ''Tone: Clear, non-accusatory, human-readable'',
        [],
        str ''Generate a brief explanation (2-3 sentences max) suitable for a government officer reviewing this case.''])\<close>

definition blockedWords :: "jsstring list" where
  "blockedWords =
     [str ''fraud'', str ''intent'', str ''prediction'', str ''suspicious'', str ''criminal'',
      str ''illegal'', str ''model thinks'']"

text \<open>
  \<open>data.candidates?.[0]?.content?.parts?.[0]?.text || ''\<close>. The first access is not
  optional: it throws a \<open>TypeError\<close> when \<open>data\<close> is \<open>null\<close>.
\<close>

definition extractText :: "json \<Rightarrow> js_error + json" where
  "extractText data =
     (if data = JNull then Inl TypeError
      else
        let text =
          opt_chain (opt_chain (opt_chain (opt_chain (opt_chain
            (getProp (str ''candidates'') data) index0) (getProp (str ''content'')))
            (getProp (str ''parts''))) index0) (getProp (str ''text''))
        in Inr (case text of None \<Rightarrow> JStr [] | Some v \<Rightarrow> if truthy v then v else JStr []))"

definition fallback :: "jsstring list \<Rightarrow> SupportedLanguage \<Rightarrow> jsstring" where
  "fallback safeReasonCodes language =
     join [10] (getStaticExplanations safeReasonCodes language)"

text \<open>
  The body of the \<open>try\<close> block: \<open>Inl\<close> is what it throws. \<open>explanation.toLowerCase()\<close>
  throws a \<open>TypeError\<close> when the extracted value is not a string.
\<close>

definition tryBody ::
  "case_map \<Rightarrow> service \<Rightarrow> jsstring \<Rightarrow> jsstring list \<Rightarrow> SupportedLanguage \<Rightarrow>
     js_error + jsstring" where
  "tryBody lc fetch request safeReasonCodes language =
     (case fetch request of
        Inl e \<Rightarrow> Inl e
      | Inr response \<Rightarrow>
          if \<not> ok response then Inr (fallback safeReasonCodes language)
          else
            (case json_body response of
               Inl e \<Rightarrow> Inl e
             | Inr data \<Rightarrow>
                 (case extractText data of
                    Inl e \<Rightarrow> Inl e
                  | Inr (JStr explanation) \<Rightarrow>
                      let hasBlockedWord =
                        list_ex (\<lambda>word. includes_str (toLowerCase lc explanation) word)
                          blockedWords
                      in if hasBlockedWord \<or> trim explanation = []
                         then Inr (fallback safeReasonCodes language)
                         else Inr (trim explanation)
                  | Inr _ \<Rightarrow> Inl TypeError)))"

text \<open>
  The whole function. \<open>uc\<close> and \<open>lc\<close> are the case tables of \<open>toUpperCase\<close> and
  \<open>toLowerCase\<close>, \<open>GEMINI_API_KEY\<close> the value read from the environment and \<open>fetch\<close>
  the service. The result is what the promise settles to: \<open>Inr\<close> resolved, \<open>Inl\<close>
  rejected.
\<close>

definition generateGeminiExplanation ::
  "case_map \<Rightarrow> case_map \<Rightarrow> jsstring \<Rightarrow> service \<Rightarrow>
     jsstring \<Rightarrow> jsstring list \<Rightarrow> SupportedLanguage \<Rightarrow> js_error + jsstring" where
  "generateGeminiExplanation uc lc GEMINI_API_KEY fetch riskLevel reasonCodes language =
     (let safeRiskLevel = sanitizeRiskLevel uc riskLevel;
          safeReasonCodes = sanitizeReasonCodes lc reasonCodes
      in if GEMINI_API_KEY = [] then Inr (fallback safeReasonCodes language)
         else
           (case tryBody lc fetch (prompt safeRiskLevel safeReasonCodes language)
                   safeReasonCodes language of
              Inr text \<Rightarrow> Inr text
            | Inl error \<Rightarrow>
                if error = AbortError then Inr (fallback safeReasonCodes language)
                else Inr (fallback safeReasonCodes language)))"


section \<open>Recording an audit action (src/app/api/audit/route.ts, POST)\<close>

text \<open>
  The interfaces give \<open>action\<close> the type of the literals REVIEWED, FLAGGED, CLEARED,
  NOTE_ADDED (and EXPORTED in an entry), but the handler never checks it: at run time
  the action is whatever string the body holds, the empty string included.
\<close>

record AuditEntry =
  audit_id :: jsstring
  beneficiary_id :: jsstring
  action :: jsstring
  officer_id :: jsstring
  officer_name :: jsstring
  entry_notes :: jsstring
  previous_status :: jsstring
  new_status :: jsstring
  created_at :: jsstring

text \<open>The request body: every field is a string, or \<open>None\<close> when the JSON does not
  have it (\<open>undefined\<close> after destructuring) or has \<open>null\<close> for it.\<close>

record AuditRequest =
  req_beneficiary_id :: "jsstring option"
  req_action :: "jsstring option"
  req_officer_id :: "jsstring option"
  req_officer_name :: "jsstring option"
  req_notes :: "jsstring option"
  req_new_status :: "jsstring option"

text \<open>A thrown value: an \<open>Error\<close> with its message, or anything else.\<close>

datatype thrown = Error jsstring | NonError

definition errorMessage :: "thrown \<Rightarrow> jsstring" where
  "errorMessage e = (case e of Error m \<Rightarrow> m | NonError \<Rightarrow> str ''Unknown error occurred'')"

text \<open>
  Everything the handler reads from outside: the parsed body (\<open>request.json()\<close> may
  reject), the data-store client (\<open>getBigQueryClient()\<close> may throw), the status query
  (it throws, or returns the \<open>risk_level\<close> column of the rows of the beneficiary, \<open>None\<close>
  for a NULL), \<open>uuidv4()\<close>, the clock, and whether the insert job throws.
\<close>

record audit_env =
  request_json :: "thrown + AuditRequest"
  client_error :: "thrown option"
  status_query :: "jsstring \<Rightarrow> thrown + jsstring option list"
  uuidv4 :: jsstring
  now_iso :: jsstring
  insert_error :: "thrown option"

text \<open>The JSON of the response with its HTTP status.\<close>

datatype audit_body =
    Failure jsstring
  | Recorded jsstring AuditEntry

record audit_response =
  http_status :: nat
  response_body :: audit_body

text \<open>\<open>!v\<close> for an optional string \<open>v\<close>: it is absent or empty.\<close>

definition falsy :: "jsstring option \<Rightarrow> bool" where
  "falsy v = (v = None \<or> v = Some [])"

text \<open>\<open>v || d\<close> for an optional string \<open>v\<close> and a string \<open>d\<close>.\<close>

definition or_default :: "jsstring option \<Rightarrow> jsstring \<Rightarrow> jsstring" where
  "or_default v d = (case v of None \<Rightarrow> d | Some s \<Rightarrow> if s = [] then d else s)"

text \<open>\<open>statusRows[0]?.risk_level || 'UNKNOWN'\<close>\<close>

definition previousStatus :: "jsstring option list \<Rightarrow> jsstring" where
  "previousStatus statusRows =
     (case statusRows of [] \<Rightarrow> str ''UNKNOWN'' | r # _ \<Rightarrow> or_default r (str ''UNKNOWN''))"

definition server_error :: "thrown \<Rightarrow> audit_response" where
  "server_error e = \<lparr>http_status = 500, response_body = Failure (errorMessage e)\<rparr>"

text \<open>The \<open>audit\<close> field of a response, when it has one.\<close>

definition recorded_entry :: "audit_response \<Rightarrow> AuditEntry option" where
  "recorded_entry r =
     (case response_body r of Recorded message entry \<Rightarrow> Some entry | Failure _ \<Rightarrow> None)"

text \<open>
  The handler, on the rows of the \<open>audit_trail\<close> table: it returns the response and the
  table afterwards. An insert that throws is caught and leaves the table as it was.
\<close>

definition audit_POST ::
  "audit_env \<Rightarrow> AuditEntry list \<Rightarrow> audit_response \<times> AuditEntry list" where
  "audit_POST env audit_trail =
     (case request_json env of
        Inl e \<Rightarrow> (server_error e, audit_trail)
      | Inr body \<Rightarrow>
          (case (req_beneficiary_id body, req_action body) of
             (Some bid, Some act) \<Rightarrow>
               if bid = [] \<or> act = [] then
                 (\<lparr>http_status = 400,
                   response_body = Failure (str ''beneficiary_id and action are required'')\<rparr>,
                  audit_trail)
               else
                 (case client_error env of
                    Some e \<Rightarrow> (server_error e, audit_trail)
                  | None \<Rightarrow>
                      (case status_query env bid of
                         Inl e \<Rightarrow> (server_error e, audit_trail)
                       | Inr statusRows \<Rightarrow>
                           let previous = previousStatus statusRows;
                               auditEntry =
                                 \<lparr>audit_id = uuidv4 env,
                                  beneficiary_id = bid,
                                  action = act,
                                  officer_id = or_default (req_officer_id body) (str ''SYSTEM''),
                                  officer_name =
                                    or_default (req_officer_name body) (str ''System User''),
                                  entry_notes = or_default (req_notes body) [],
                                  previous_status = previous,
                                  new_status = or_default (req_new_status body) previous,
                                  created_at = now_iso env\<rparr>;
                               audit_trail' =
                                 (case insert_error env of
                                    None \<Rightarrow> audit_trail @ [auditEntry]
                                  | Some _ \<Rightarrow> audit_trail)
                           in (\<lparr>http_status = 200,
                                response_body =
                                  Recorded
                                    (str ''Action '' @ [39] @ act @ [39] @
                                     str '' recorded for beneficiary '' @ bid)
                                    auditEntry\<rparr>,
                               audit_trail')))
           | _ \<Rightarrow>
               (\<lparr>http_status = 400,
                 response_body = Failure (str ''beneficiary_id and action are required'')\<rparr>,
                audit_trail)))"


section \<open>Spike detection (the temporal-spikes route, GET)\<close>

text \<open>
  The query runs in the data store. Its first table expression, \<open>district_stats\<close>, has
  one row per district with the number of its HIGH or MEDIUM cases; the model starts
  from these rows. The FLOAT64 arithmetic of the store is taken as arithmetic on the
  reals, and a NULL is \<open>None\<close>.
\<close>

record 'd district_stat =
  residence_district :: 'd
  anomaly_count :: nat

text \<open>\<open>AVG\<close> is NULL over no rows. \<open>STDDEV\<close> is the sample standard deviation
  (\<open>STDDEV_SAMP\<close>), NULL over fewer than two rows.\<close>

definition mean :: "'d district_stat list \<Rightarrow> real" where
  "mean ds = sum_list (map (\<lambda>d. real (anomaly_count d)) ds) / real (length ds)"

definition variance :: "'d district_stat list \<Rightarrow> real" where
  "variance ds =
     sum_list (map (\<lambda>d. (real (anomaly_count d) - mean ds)\<^sup>2) ds) / real (length ds - 1)"

definition avg_count :: "'d district_stat list \<Rightarrow> real option" where
  "avg_count ds = (if ds = [] then None else Some (mean ds))"

definition std_count :: "'d district_stat list \<Rightarrow> real option" where
  "std_count ds = (if length ds < 2 then None else Some (sqrt (variance ds)))"

text \<open>\<open>SELECT avg_count + k * std_count FROM baseline\<close>: NULL as soon as one operand is.\<close>

definition threshold :: "real \<Rightarrow> 'd district_stat list \<Rightarrow> real option" where
  "threshold k ds =
     (case (avg_count ds, std_count ds) of
        (Some a, Some s) \<Rightarrow> Some (a + k * s)
      | _ \<Rightarrow> None)"

text \<open>\<open>x > t\<close> in SQL: NULL when \<open>t\<close> is. A \<open>WHERE\<close> or a \<open>WHEN\<close> takes a row only
  when its condition is TRUE.\<close>

definition sql_gt :: "real \<Rightarrow> real option \<Rightarrow> bool option" where
  "sql_gt x t = map_option (\<lambda>t. x > t) t"

definition is_true :: "bool option \<Rightarrow> bool" where
  "is_true b = (b = Some True)"

definition exceeds :: "real \<Rightarrow> 'd district_stat list \<Rightarrow> 'd district_stat \<Rightarrow> bool" where
  "exceeds k ds d = is_true (sql_gt (real (anomaly_count d)) (threshold k ds))"

text \<open>
  The threshold test in the words of the specification: the count of the group is greater
  than the mean plus \<open>k\<close> standard deviations, the standard deviation being the sample
  one, which needs two groups at least.
\<close>

definition above :: "real \<Rightarrow> 'd district_stat list \<Rightarrow> 'd district_stat \<Rightarrow> bool" where
  "above k ds d =
     (2 \<le> length ds \<and> mean ds + k * sqrt (variance ds) < real (anomaly_count d))"

text \<open>\<open>ROUND(x, n)\<close>: to \<open>n\<close> decimals, halfway cases away from zero.\<close>

definition sql_round :: "real \<Rightarrow> nat \<Rightarrow> real" where
  "sql_round x n = sgn x * of_int \<lfloor>\<bar>x\<bar> * 10 ^ n + 1 / 2\<rfloor> / 10 ^ n"

text \<open>\<open>NULLIF(x, 0)\<close> and a division with a NULL divisor.\<close>

definition nullif0 :: "real option \<Rightarrow> real option" where
  "nullif0 x = (case x of None \<Rightarrow> None | Some v \<Rightarrow> if v = 0 then None else Some v)"

definition spike_type_of :: "'d district_stat list \<Rightarrow> 'd district_stat \<Rightarrow> jsstring" where
  "spike_type_of ds d =
     (if exceeds 2.5 ds d then str ''CRITICAL''
      else if exceeds 2 ds d then str ''HIGH''
      else str ''MODERATE'')"

definition deviation_of :: "'d district_stat list \<Rightarrow> 'd district_stat \<Rightarrow> real option" where
  "deviation_of ds d =
     (case (avg_count ds, nullif0 (avg_count ds)) of
        (Some a, Some b) \<Rightarrow> Some (sql_round ((real (anomaly_count d) - a) / b * 100) 1)
      | _ \<Rightarrow> None)"

text \<open>
  A row of the result. \<open>row_date\<close> is the day number of
  \<open>DATE_SUB(CURRENT_DATE(), INTERVAL ROW_NUMBER() OVER (ORDER BY anomaly_count DESC) DAY)\<close>,
  before \<open>FORMAT_DATE\<close> prints it.
\<close>

record 'd spike_row =
  row_date :: int
  row_spike_type :: jsstring
  row_anomaly_count :: nat
  row_avg_baseline :: "real option"
  row_deviation_percentage :: "real option"
  row_affected_districts :: "'d list"

text \<open>
  The rows that pass the \<open>WHERE\<close>, in the order of \<open>ORDER BY ds.anomaly_count DESC\<close>.
  The store may put rows of equal count in any order; the model keeps them in the order
  of \<open>district_stats\<close>.
\<close>

definition spikes_ordered :: "'d district_stat list \<Rightarrow> 'd district_stat list" where
  "spikes_ordered ds = sort_key (\<lambda>d. - int (anomaly_count d)) (filter (exceeds 1.5 ds) ds)"

definition spike_query :: "int \<Rightarrow> 'd district_stat list \<Rightarrow> 'd spike_row list" where
  "spike_query current_date ds =
     take 20
       (map (\<lambda>(row_number, d).
               \<lparr>row_date = current_date - int row_number,
                row_spike_type = spike_type_of ds d,
                row_anomaly_count = anomaly_count d,
                row_avg_baseline = map_option (\<lambda>a. sql_round a 2) (avg_count ds),
                row_deviation_percentage = deviation_of ds d,
                row_affected_districts = [residence_district d]\<rparr>)
          (enumerate 1 (spikes_ordered ds)))"

text \<open>The array the route answers with. \<open>Number(null)\<close> is \<open>0\<close>.\<close>

record 'd TemporalSpike =
  date :: int
  spike_type :: jsstring
  spike_count :: nat
  avg_baseline :: real
  deviation_percentage :: real
  affected_districts :: "'d list"

definition Number :: "real option \<Rightarrow> real" where
  "Number v = (case v of None \<Rightarrow> 0 | Some x \<Rightarrow> x)"

definition toTemporalSpike :: "'d spike_row \<Rightarrow> 'd TemporalSpike" where
  "toTemporalSpike row =
     \<lparr>date = row_date row,
      spike_type = row_spike_type row,
      spike_count = row_anomaly_count row,
      avg_baseline = Number (row_avg_baseline row),
      deviation_percentage = Number (row_deviation_percentage row),
      affected_districts = row_affected_districts row\<rparr>"

text \<open>The handler: a query that throws gives the 500 answer with the error's message.\<close>

datatype 'd spikes_response =
    Spikes "'d TemporalSpike list"
  | SpikesFailure nat jsstring

definition spikes_GET ::
  "int \<Rightarrow> thrown + 'd district_stat list \<Rightarrow> 'd spikes_response" where
  "spikes_GET current_date queried =
     (case queried of
        Inl e \<Rightarrow> SpikesFailure 500 (errorMessage e)
      | Inr ds \<Rightarrow> Spikes (map toTemporalSpike (spike_query current_date ds)))"


text \<open>The array of a successful answer.\<close>

definition spikes_of :: "'d spikes_response \<Rightarrow> 'd TemporalSpike list" where
  "spikes_of r = (case r of Spikes xs \<Rightarrow> xs | SpikesFailure _ _ \<Rightarrow> [])"


section \<open>Example inputs\<close>

text \<open>Requests to the audit route, and a data store where the beneficiary is HIGH.\<close>

definition officer_a_request :: "jsstring \<Rightarrow> AuditRequest" where
  "officer_a_request act =
     \<lparr>req_beneficiary_id = Some (str ''BEN-001''),
      req_action = Some act,
      req_officer_id = None,
      req_officer_name = Some (str ''Officer A''),
      req_notes = Some [],
      req_new_status = None\<rparr>"

definition blank_officer_request :: AuditRequest where
  "blank_officer_request =
     \<lparr>req_beneficiary_id = Some (str ''BEN-001''),
      req_action = Some (str ''NOTE_ADDED''),
      req_officer_id = None,
      req_officer_name = Some [],
      req_notes = Some [],
      req_new_status = None\<rparr>"

definition whitespace_officer_request :: AuditRequest where
  "whitespace_officer_request =
     \<lparr>req_beneficiary_id = Some (str ''BEN-001''),
      req_action = Some (str ''REVIEWED''),
      req_officer_id = None,
      req_officer_name = Some (str ''   ''),
      req_notes = None,
      req_new_status = None\<rparr>"

definition empty_action_request :: AuditRequest where
  "empty_action_request =
     \<lparr>req_beneficiary_id = Some (str ''BEN-001''),
      req_action = Some [],
      req_officer_id = None,
      req_officer_name = Some (str ''Officer A''),
      req_notes = None,
      req_new_status = None\<rparr>"

definition example_env :: "AuditRequest \<Rightarrow> thrown option \<Rightarrow> audit_env" where
  "example_env body insert_outcome =
     \<lparr>request_json = Inr body,
      client_error = None,
      status_query = (\<lambda>bid. Inr [Some (str ''HIGH'')]),
      uuidv4 = str ''00000000-0000-4000-8000-000000000000'',
      now_iso = str ''2025-01-01T00:00:00.000Z'',
      insert_error = insert_outcome\<rparr>"


text \<open>A case table that leaves every unit outside ASCII as it is, and a well-formed
  reply of the generation service with the given text.\<close>

definition identity_case :: case_map where
  "identity_case s i = [s ! i]"

definition gemini_reply :: "jsstring \<Rightarrow> http_response" where
  "gemini_reply text =
     \<lparr>ok = True, status = 200,
      json_body = Inr (JObj [(str ''candidates'',
        JArr [JObj [(str ''content'',
          JObj [(str ''parts'', JArr [JObj [(str ''text'', JStr text)]])])]])])\<rparr>"



text \<open>
  A hundred districts: 79 with one case, and the districts 79 to 99 with 100 to 120
  cases. Their mean is \<open>23.89\<close> and the threshold \<open>mean + 1.5 * stddev\<close> is about
  \<open>90.95\<close>, so 21 districts are above it.
\<close>

definition districts100 :: "nat district_stat list" where
  "districts100 =
     map (\<lambda>i. \<lparr>residence_district = i, anomaly_count = 1\<rparr>) [0..<79] @
     map (\<lambda>i. \<lparr>residence_district = i, anomaly_count = i + 21\<rparr>) [79..<100]"


section \<open>Facts about the string operations and the sanitizers\<close>

lemmas string_defs = str_def toUpperCase_def toLowerCase_def upperUnit_def lowerUnit_def
  trim_def isWhiteSpace_def stripControl_def isControl_def

lemma map_filter_validateCode:
  "List.map_filter (validateCode cm) xs =
     filter (\<lambda>c. c \<in> set ALLOWED_REASON_CODES) (map (cleanCode cm) xs)"
  by (induction xs) (simp_all add: validateCode_def Let_def)

lemma sanitizeReasonCodes_survivors:
  "sanitizeReasonCodes cm xs =
     (let survivors = filter (\<lambda>c. c \<in> set ALLOWED_REASON_CODES) (map (cleanCode cm) xs)
      in if survivors = [] then [str ''normal''] else survivors)"
  by (simp add: sanitizeReasonCodes_def map_filter_validateCode Let_def)

lemma normal_allowed: "str ''normal'' \<in> set ALLOWED_REASON_CODES"
  by (simp add: ALLOWED_REASON_CODES_def)

lemma sanitizeReasonCodes_nonempty: "sanitizeReasonCodes cm xs \<noteq> []"
  by (simp add: sanitizeReasonCodes_survivors Let_def)

lemma sanitizeReasonCodes_allowed:
  "c \<in> set (sanitizeReasonCodes cm xs) \<Longrightarrow> c \<in> set ALLOWED_REASON_CODES"
  using normal_allowed by (auto simp: sanitizeReasonCodes_survivors Let_def split: if_splits)

lemma startsWith_iff: "startsWith s w = (\<exists>b. s = w @ b)"
  by (induction s w rule: startsWith.induct) auto

lemma includes_str_iff: "includes_str s w = (\<exists>a b. s = a @ w @ b)"
proof (induction s)
  case Nil
  then show ?case by auto
next
  case (Cons c cs)
  show ?case
  proof
    assume "includes_str (c # cs) w"
    then consider "startsWith (c # cs) w" | "includes_str cs w" by auto
    then show "\<exists>a b. c # cs = a @ w @ b"
    proof cases
      case 1
      then obtain b where "c # cs = w @ b" by (auto simp: startsWith_iff)
      then have "c # cs = [] @ w @ b" by simp
      then show ?thesis by blast
    next
      case 2
      with Cons obtain a b where "cs = a @ w @ b" by auto
      then have "c # cs = (c # a) @ w @ b" by simp
      then show ?thesis by blast
    qed
  next
    assume "\<exists>a b. c # cs = a @ w @ b"
    then obtain a b where ab: "c # cs = a @ w @ b" by blast
    show "includes_str (c # cs) w"
    proof (cases a)
      case Nil
      with ab have "startsWith (c # cs) w" by (auto simp: startsWith_iff)
      then show ?thesis by simp
    next
      case (Cons a0 as)
      with ab have "cs = as @ w @ b" by simp
      with Cons.IH have "includes_str cs w" by blast
      then show ?thesis by simp
    qed
  qed
qed

lemma lowerFrom_append:
  "lowerFrom cm s n (xs @ ys) = lowerFrom cm s n xs @ lowerFrom cm s (n + length xs) ys"
  by (simp add: lowerFrom_def enumerate_append_eq)

lemma lowerFrom_ascii:
  "list_all (\<lambda>c. c < 128) v \<Longrightarrow> lowerFrom cm s n v = map lowerUnit v"
  by (induction v arbitrary: n) (simp_all add: lowerFrom_def)

lemma toLowerCase_includes:
  assumes "includes_str t v" and "list_all (\<lambda>c. c < 128) v"
  shows "includes_str (toLowerCase cm t) (map lowerUnit v)"
proof -
  from assms(1) obtain a b where t: "t = a @ v @ b" by (auto simp: includes_str_iff)
  have "toLowerCase cm t = lowerFrom cm t 0 t" by (simp add: toLowerCase_def lowerFrom_def)
  also have "\<dots> = lowerFrom cm t 0 (a @ v @ b)" by (rule arg_cong [OF t])
  also have "\<dots> = lowerFrom cm t 0 a @ map lowerUnit v @ lowerFrom cm t (length a + length v) b"
    using assms(2) by (simp add: lowerFrom_append lowerFrom_ascii)
  finally show ?thesis unfolding includes_str_iff by blast
qed


section \<open>Reason codes from flags\<close>

text \<open>
  Claim C4. For every combination of the four flags the derived list is not empty; it
  is exactly \<open>[normal]\<close> if and only if all four flags are false; \<open>normal\<close> occurs in it
  only when it is the whole list; and when some flag is set the list is the codes of the
  set flags, one code per flag, in the fixed order high_recent_activity,
  multiple_dealers, cross_district, high_lifetime_usage.
\<close>

theorem flagsToReasonCodes_spec:
  "flagsToReasonCodes fl \<noteq> [] \<and>
   (flagsToReasonCodes fl = [str ''normal'']) =
     (\<not> flag_high_recent_activity fl \<and> \<not> flag_multiple_dealers fl \<and>
      \<not> flag_cross_district fl \<and> \<not> flag_high_lifetime_usage fl) \<and>
   (str ''normal'' \<in> set (flagsToReasonCodes fl)) = (flagsToReasonCodes fl = [str ''normal'']) \<and>
   flagsToReasonCodes fl =
     (if flag_high_recent_activity fl \<or> flag_multiple_dealers fl \<or>
         flag_cross_district fl \<or> flag_high_lifetime_usage fl
      then map snd (filter fst
             [(flag_high_recent_activity fl, str ''high_recent_activity''),
              (flag_multiple_dealers fl, str ''multiple_dealers''),
              (flag_cross_district fl, str ''cross_district''),
              (flag_high_lifetime_usage fl, str ''high_lifetime_usage'')])
      else [str ''normal''])"
  by (simp add: flagsToReasonCodes_def Let_def str_def)


section \<open>The sanitizers\<close>

text \<open>
  Claim C7. \<open>sanitizeRiskLevel\<close> upper-cases and trims its input; it returns the
  normalized value exactly when that value is HIGH, MEDIUM or LOW and the sentinel
  UNKNOWN for every other input, so its result is always one of the four. The inputs
  \<open>high\<close>, \<open>High \<close> (trailing space) and \<open> HIGH\<close> (leading space) give HIGH, and
  \<open>'; DROP TABLE--\<close> gives UNKNOWN.
\<close>

theorem sanitizeRiskLevel_spec:
  "sanitizeRiskLevel uc r =
     (if trim (toUpperCase uc r) \<in> {str ''HIGH'', str ''MEDIUM'', str ''LOW''}
      then trim (toUpperCase uc r) else str ''UNKNOWN'') \<and>
   sanitizeRiskLevel uc r \<in> {str ''HIGH'', str ''MEDIUM'', str ''LOW'', str ''UNKNOWN''} \<and>
   (sanitizeRiskLevel uc r = str ''UNKNOWN'') =
     (trim (toUpperCase uc r) \<notin> {str ''HIGH'', str ''MEDIUM'', str ''LOW''}) \<and>
   sanitizeRiskLevel uc (str ''high'') = str ''HIGH'' \<and>
   sanitizeRiskLevel uc (str ''High '') = str ''HIGH'' \<and>
   sanitizeRiskLevel uc (str '' HIGH'') = str ''HIGH'' \<and>
   sanitizeRiskLevel uc (39 # str ''; DROP TABLE--'') = str ''UNKNOWN''"
proof -
  have unknown: "str ''UNKNOWN'' \<notin> {str ''HIGH'', str ''MEDIUM'', str ''LOW''}"
    by (simp add: str_def)
  have general: "sanitizeRiskLevel uc r =
     (if trim (toUpperCase uc r) \<in> {str ''HIGH'', str ''MEDIUM'', str ''LOW''}
      then trim (toUpperCase uc r) else str ''UNKNOWN'')"
    by (simp add: sanitizeRiskLevel_def ALLOWED_RISK_LEVELS_def Let_def)
  have examples: "sanitizeRiskLevel uc (str ''high'') = str ''HIGH''"
    "sanitizeRiskLevel uc (str ''High '') = str ''HIGH''"
    "sanitizeRiskLevel uc (str '' HIGH'') = str ''HIGH''"
    "sanitizeRiskLevel uc (39 # str ''; DROP TABLE--'') = str ''UNKNOWN''"
    by (simp_all add: sanitizeRiskLevel_def ALLOWED_RISK_LEVELS_def string_defs)
  from unknown general examples show ?thesis by auto
qed

text \<open>
  Claim C6. For every list of strings \<open>sanitizeReasonCodes\<close> returns a list that is
  not empty and whose elements all belong to the allowlist of five codes. An element
  whose cleaned form is not in the allowlist is dropped and nothing is put in its place:
  the result is the cleaned elements that are in the allowlist, in their order, or
  exactly \<open>[normal]\<close> when there is none, as for the empty list and for
  \<open>[totally_invalid]\<close>.
\<close>

theorem sanitizeReasonCodes_spec:
  "sanitizeReasonCodes cm xs \<noteq> [] \<and>
   list_all (\<lambda>c. c \<in> {str ''high_recent_activity'', str ''multiple_dealers'',
                       str ''cross_district'', str ''high_lifetime_usage'', str ''normal''})
     (sanitizeReasonCodes cm xs) \<and>
   sanitizeReasonCodes cm xs =
     (if filter (\<lambda>c. c \<in> set ALLOWED_REASON_CODES) (map (cleanCode cm) xs) = []
      then [str ''normal'']
      else filter (\<lambda>c. c \<in> set ALLOWED_REASON_CODES) (map (cleanCode cm) xs)) \<and>
   sanitizeReasonCodes cm [] = [str ''normal''] \<and>
   sanitizeReasonCodes cm [str ''totally_invalid''] = [str ''normal'']"
proof -
  have "list_all (\<lambda>c. c \<in> set ALLOWED_REASON_CODES) (sanitizeReasonCodes cm xs)"
    using sanitizeReasonCodes_allowed by (auto simp: list_all_iff)
  then have allowed:
    "list_all (\<lambda>c. c \<in> {str ''high_recent_activity'', str ''multiple_dealers'',
                         str ''cross_district'', str ''high_lifetime_usage'', str ''normal''})
       (sanitizeReasonCodes cm xs)"
    by (simp add: ALLOWED_REASON_CODES_def)
  have empty: "sanitizeReasonCodes cm [] = [str ''normal'']"
    by (simp add: sanitizeReasonCodes_survivors)
  have invalid: "sanitizeReasonCodes cm [str ''totally_invalid''] = [str ''normal'']"
    by (simp add: sanitizeReasonCodes_survivors cleanCode_def ALLOWED_REASON_CODES_def
        string_defs)
  show ?thesis
    using sanitizeReasonCodes_nonempty allowed empty invalid
    by (simp add: sanitizeReasonCodes_survivors Let_def)
qed

text \<open>
  Claim C5, as the code has it. The element \<open>HIGH_RECENT_ACTIVITY\<close>, line feed,
  \<open><script>\<close> is lower-cased, trimmed (the line feed is inside, so it stays) and
  stripped of the line feed: the cleaned token is \<open>high_recent_activity<script>\<close>, which
  is not in the allowlist. The token is dropped as a whole and the result is
  \<open>[normal]\<close>.
\<close>

theorem sanitizeReasonCodes_script_suffix:
  "cleanCode cm (str ''HIGH_RECENT_ACTIVITY'' @ [10] @ str ''<script>'') =
     str ''high_recent_activity<script>'' \<and>
   sanitizeReasonCodes cm [str ''HIGH_RECENT_ACTIVITY'' @ [10] @ str ''<script>''] =
     [str ''normal'']"
  by (simp add: sanitizeReasonCodes_survivors cleanCode_def ALLOWED_REASON_CODES_def
      string_defs)

text \<open>The result stated by claim C5, \<open>[high_recent_activity]\<close>, is not what the
  function returns on that input.\<close>

theorem sanitizeReasonCodes_script_suffix_counterexample:
  "sanitizeReasonCodes identity_case
       [str ''HIGH_RECENT_ACTIVITY'' @ [10] @ str ''<script>''] \<noteq>
     [str ''high_recent_activity'']"
  by (simp add: sanitizeReasonCodes_survivors cleanCode_def ALLOWED_REASON_CODES_def
      string_defs)


section \<open>The audit ledger\<close>

lemma audit_POST_recorded:
  assumes "request_json env = Inr body"
    and "req_beneficiary_id body = Some bid" and "bid \<noteq> []"
    and "req_action body = Some act" and "act \<noteq> []"
    and "client_error env = None"
    and "status_query env bid = Inr statusRows"
  shows "audit_POST env trail =
     (let auditEntry =
        \<lparr>audit_id = uuidv4 env,
         beneficiary_id = bid,
         action = act,
         officer_id = or_default (req_officer_id body) (str ''SYSTEM''),
         officer_name = or_default (req_officer_name body) (str ''System User''),
         entry_notes = or_default (req_notes body) [],
         previous_status = previousStatus statusRows,
         new_status = or_default (req_new_status body) (previousStatus statusRows),
         created_at = now_iso env\<rparr>
      in (\<lparr>http_status = 200,
           response_body =
             Recorded (str ''Action '' @ [39] @ act @ [39] @
                       str '' recorded for beneficiary '' @ bid) auditEntry\<rparr>,
          case insert_error env of None \<Rightarrow> trail @ [auditEntry] | Some _ \<Rightarrow> trail))"
  using assms by (simp add: audit_POST_def Let_def)

lemma audit_POST_400_iff:
  assumes "request_json env = Inr body"
  shows "(http_status (fst (audit_POST env trail)) = 400) =
         (falsy (req_beneficiary_id body) \<or> falsy (req_action body))"
  using assms
  by (auto simp: audit_POST_def Let_def falsy_def server_error_def
      split: option.splits sum.splits)

text \<open>
  Claim C1, as the code has it. When the action is CLEARED and the caller supplies no
  new status (the field is absent or empty), the request is answered with success and
  the created entry has \<open>new_status\<close> equal to \<open>previous_status\<close>, the status read for
  the case (UNKNOWN when there is none). So the new status is LOW exactly when the
  status read for the case is LOW: the handler has no rule that depends on the action.
\<close>

theorem audit_cleared_keeps_previous_status:
  assumes "request_json env = Inr body"
    and "req_beneficiary_id body = Some bid" and "bid \<noteq> []"
    and "req_action body = Some (str ''CLEARED'')"
    and "falsy (req_new_status body)"
    and "client_error env = None"
    and "status_query env bid = Inr statusRows"
  shows "http_status (fst (audit_POST env trail)) = 200 \<and>
         (\<exists>entry. recorded_entry (fst (audit_POST env trail)) = Some entry \<and>
            action entry = str ''CLEARED'' \<and>
            previous_status entry = previousStatus statusRows \<and>
            new_status entry = previousStatus statusRows \<and>
            (new_status entry = str ''LOW'') = (previousStatus statusRows = str ''LOW''))"
proof -
  have cleared: "str ''CLEARED'' \<noteq> []" by (simp add: str_def)
  from assms(5) audit_POST_recorded [OF assms(1-4) cleared assms(6-7), of trail]
  show ?thesis
    by (auto simp: Let_def falsy_def or_default_def recorded_entry_def)
qed

theorem audit_cleared_keeps_previous_status_witness:
  "http_status
     (fst (audit_POST (example_env (officer_a_request (str ''CLEARED'')) None) [])) = 200 \<and>
   (\<exists>entry.
      recorded_entry (fst (audit_POST (example_env (officer_a_request (str ''CLEARED'')) None) []))
        = Some entry \<and>
      action entry = str ''CLEARED'' \<and>
      previous_status entry = str ''HIGH'' \<and>
      new_status entry = str ''HIGH'')"
  using audit_cleared_keeps_previous_status
    [of "example_env (officer_a_request (str ''CLEARED'')) None"
        "officer_a_request (str ''CLEARED'')" "str ''BEN-001''" "[Some (str ''HIGH'')]" "[]"]
  by (auto simp: example_env_def officer_a_request_def falsy_def previousStatus_def
      or_default_def str_def)

text \<open>Claim C1 as stated fails: for a case that is HIGH, a CLEARED action without a new
  status is recorded with the new status HIGH, not LOW.\<close>

theorem audit_cleared_counterexample:
  "map_option new_status
     (recorded_entry
        (fst (audit_POST (example_env (officer_a_request (str ''CLEARED'')) None) []))) =
     Some (str ''HIGH'') \<and>
   str ''HIGH'' \<noteq> str ''LOW''"
  by (simp add: audit_POST_def example_env_def officer_a_request_def previousStatus_def
      or_default_def recorded_entry_def str_def Let_def)

text \<open>
  Claim C2, as the code has it. A request whose body parses is rejected as a client
  error (status 400) exactly when \<open>beneficiary_id\<close> or \<open>action\<close> is absent or empty, and
  then no entry is created and none is returned. When both are present and not empty,
  the client is obtained and the status read succeeds, the request succeeds whatever the
  officer name and the notes are, for NOTE_ADDED as for every other action: an officer
  name that is absent or empty is recorded as \<open>System User\<close>, any other officer name is
  recorded as it is (one of white space only too), absent notes are recorded as the
  empty string, and the entry is appended to the ledger unless the insert throws.
\<close>

theorem audit_validation:
  assumes "request_json env = Inr body"
  shows "((http_status (fst (audit_POST env trail)) = 400) =
            (falsy (req_beneficiary_id body) \<or> falsy (req_action body))) \<and>
         (http_status (fst (audit_POST env trail)) = 400 \<longrightarrow>
            snd (audit_POST env trail) = trail \<and>
            recorded_entry (fst (audit_POST env trail)) = None) \<and>
         (\<forall>bid act statusRows.
            req_beneficiary_id body = Some bid \<and> bid \<noteq> [] \<and>
            req_action body = Some act \<and> act \<noteq> [] \<and>
            client_error env = None \<and> status_query env bid = Inr statusRows \<longrightarrow>
            http_status (fst (audit_POST env trail)) = 200 \<and>
            (\<exists>entry. recorded_entry (fst (audit_POST env trail)) = Some entry \<and>
               action entry = act \<and>
               officer_name entry =
                 (case req_officer_name body of
                    None \<Rightarrow> str ''System User''
                  | Some name \<Rightarrow> if name = [] then str ''System User'' else name) \<and>
               entry_notes entry = (case req_notes body of None \<Rightarrow> [] | Some n \<Rightarrow> n) \<and>
               snd (audit_POST env trail) =
                 (case insert_error env of None \<Rightarrow> trail @ [entry] | Some _ \<Rightarrow> trail)))"
proof -
  have rejected: "(http_status (fst (audit_POST env trail)) = 400) =
          (falsy (req_beneficiary_id body) \<or> falsy (req_action body))"
    by (rule audit_POST_400_iff [OF assms])
  have untouched: "http_status (fst (audit_POST env trail)) = 400 \<longrightarrow>
      snd (audit_POST env trail) = trail \<and>
      recorded_entry (fst (audit_POST env trail)) = None"
    using assms
    by (auto simp: audit_POST_def Let_def server_error_def recorded_entry_def
        split: option.splits sum.splits if_splits)
  have accepted: "http_status (fst (audit_POST env trail)) = 200 \<and>
     (\<exists>entry. recorded_entry (fst (audit_POST env trail)) = Some entry \<and>
        action entry = act \<and>
        officer_name entry =
          (case req_officer_name body of
             None \<Rightarrow> str ''System User''
           | Some name \<Rightarrow> if name = [] then str ''System User'' else name) \<and>
        entry_notes entry = (case req_notes body of None \<Rightarrow> [] | Some n \<Rightarrow> n) \<and>
        snd (audit_POST env trail) =
          (case insert_error env of None \<Rightarrow> trail @ [entry] | Some _ \<Rightarrow> trail))"
    if h: "req_beneficiary_id body = Some bid \<and> bid \<noteq> [] \<and>
           req_action body = Some act \<and> act \<noteq> [] \<and>
           client_error env = None \<and> status_query env bid = Inr statusRows"
    for bid act statusRows
  proof -
    from h have "req_beneficiary_id body = Some bid" "bid \<noteq> []"
      "req_action body = Some act" "act \<noteq> []"
      "client_error env = None" "status_query env bid = Inr statusRows"
      by simp_all
    from audit_POST_recorded [OF assms this, of trail] show ?thesis
      by (simp add: Let_def recorded_entry_def or_default_def split: option.splits)
  qed
  from rejected untouched accepted show ?thesis by blast
qed

text \<open>
  Three requests: NOTE_ADDED with an empty officer name and empty notes is recorded
  under \<open>System User\<close>; an officer name of three spaces is recorded as it is; an empty
  action is rejected with status 400 and the ledger stays empty.
\<close>

theorem audit_validation_witness:
  "(http_status (fst (audit_POST (example_env blank_officer_request None) [])) = 200 \<and>
    (\<exists>entry. recorded_entry (fst (audit_POST (example_env blank_officer_request None) []))
         = Some entry \<and>
       action entry = str ''NOTE_ADDED'' \<and>
       officer_name entry = str ''System User'' \<and>
       entry_notes entry = [] \<and>
       snd (audit_POST (example_env blank_officer_request None) []) = [entry])) \<and>
   (\<exists>entry. recorded_entry (fst (audit_POST (example_env whitespace_officer_request None) []))
        = Some entry \<and>
      officer_name entry = str ''   '') \<and>
   (http_status (fst (audit_POST (example_env empty_action_request None) [])) = 400 \<and>
    snd (audit_POST (example_env empty_action_request None) []) = [])"
proof -
  have first: "http_status (fst (audit_POST (example_env blank_officer_request None) [])) = 200 \<and>
    (\<exists>entry. recorded_entry (fst (audit_POST (example_env blank_officer_request None) []))
         = Some entry \<and>
       action entry = str ''NOTE_ADDED'' \<and>
       officer_name entry = str ''System User'' \<and>
       entry_notes entry = [] \<and>
       snd (audit_POST (example_env blank_officer_request None) []) = [entry])"
    using audit_validation
      [of "example_env blank_officer_request None" blank_officer_request "[]"]
    by (auto simp: example_env_def blank_officer_request_def falsy_def str_def)
  have second: "\<exists>entry.
      recorded_entry (fst (audit_POST (example_env whitespace_officer_request None) []))
        = Some entry \<and>
      officer_name entry = str ''   ''"
    using audit_validation
      [of "example_env whitespace_officer_request None" whitespace_officer_request "[]"]
    by (auto simp: example_env_def whitespace_officer_request_def falsy_def str_def)
  have third: "http_status (fst (audit_POST (example_env empty_action_request None) [])) = 400 \<and>
    snd (audit_POST (example_env empty_action_request None) []) = []"
    using audit_validation
      [of "example_env empty_action_request None" empty_action_request "[]"]
    by (auto simp: example_env_def empty_action_request_def falsy_def str_def)
  from first second third show ?thesis by blast
qed

text \<open>Claim C2 as stated fails: a NOTE_ADDED request with an empty officer name and
  empty notes is answered with status 200, and one entry is added to the ledger.\<close>

theorem audit_validation_counterexample:
  "req_officer_name blank_officer_request = Some [] \<and>
   req_action blank_officer_request = Some (str ''NOTE_ADDED'') \<and>
   req_notes blank_officer_request = Some [] \<and>
   http_status (fst (audit_POST (example_env blank_officer_request None) [])) = 200 \<and>
   length (snd (audit_POST (example_env blank_officer_request None) [])) = 1"
  by (simp add: audit_POST_def example_env_def blank_officer_request_def Let_def str_def)

text \<open>
  Claim C8. When the status read succeeded and the insert into the ledger throws, the
  handler answers with status 200, the success message and the entry it constructed,
  and the ledger is as before. The response is the very response of the same request
  when the insert succeeds, so the failure to persist is not visible to the caller.
\<close>

theorem audit_insert_failure_reports_success:
  assumes "request_json env = Inr body"
    and "req_beneficiary_id body = Some bid" and "bid \<noteq> []"
    and "req_action body = Some act" and "act \<noteq> []"
    and "client_error env = None"
    and "status_query env bid = Inr statusRows"
    and "insert_error env = Some e"
  shows "audit_POST env trail =
           (\<lparr>http_status = 200,
             response_body =
               Recorded
                 (str ''Action '' @ [39] @ act @ [39] @
                  str '' recorded for beneficiary '' @ bid)
                 \<lparr>audit_id = uuidv4 env,
                  beneficiary_id = bid,
                  action = act,
                  officer_id = or_default (req_officer_id body) (str ''SYSTEM''),
                  officer_name = or_default (req_officer_name body) (str ''System User''),
                  entry_notes = or_default (req_notes body) [],
                  previous_status = previousStatus statusRows,
                  new_status = or_default (req_new_status body) (previousStatus statusRows),
                  created_at = now_iso env\<rparr>\<rparr>,
            trail) \<and>
         fst (audit_POST env trail) = fst (audit_POST (env\<lparr>insert_error := None\<rparr>) trail)"
proof -
  have inserted: "request_json (env\<lparr>insert_error := None\<rparr>) = Inr body"
    "client_error (env\<lparr>insert_error := None\<rparr>) = None"
    "status_query (env\<lparr>insert_error := None\<rparr>) bid = Inr statusRows"
    using assms by simp_all
  show ?thesis
    using assms(8) audit_POST_recorded [OF assms(1-7), of trail]
      audit_POST_recorded [OF inserted(1) assms(2-5) inserted(2-3), of trail]
    by (simp add: Let_def)
qed

theorem audit_insert_failure_reports_success_witness:
  "audit_POST
     (example_env (officer_a_request (str ''REVIEWED''))
        (Some (Error (str ''Not found: Table audit_trail'')))) [] =
     (\<lparr>http_status = 200,
       response_body =
         Recorded
           (str ''Action '' @ [39] @ str ''REVIEWED'' @ [39] @
            str '' recorded for beneficiary BEN-001'')
           \<lparr>audit_id = str ''00000000-0000-4000-8000-000000000000'',
            beneficiary_id = str ''BEN-001'',
            action = str ''REVIEWED'',
            officer_id = str ''SYSTEM'',
            officer_name = str ''Officer A'',
            entry_notes = [],
            previous_status = str ''HIGH'',
            new_status = str ''HIGH'',
            created_at = str ''2025-01-01T00:00:00.000Z''\<rparr>\<rparr>,
      [])"
  using audit_insert_failure_reports_success
    [of "example_env (officer_a_request (str ''REVIEWED''))
           (Some (Error (str ''Not found: Table audit_trail'')))"
        "officer_a_request (str ''REVIEWED'')" "str ''BEN-001''" "str ''REVIEWED''"
        "[Some (str ''HIGH'')]" "Error (str ''Not found: Table audit_trail'')" "[]"]
  by (simp add: example_env_def officer_a_request_def previousStatus_def
      or_default_def str_def)


section \<open>The explanation generator\<close>

lemma template_lookup:
  "c \<in> set ALLOWED_REASON_CODES \<Longrightarrow>
     \<exists>s. map_of (REASON_TEMPLATES language) c = Some s \<and> s \<noteq> []"
  by (cases language)
    (auto simp: ALLOWED_REASON_CODES_def str_def hi_high_recent_activity_def
      hi_multiple_dealers_def hi_cross_district_def hi_high_lifetime_usage_def hi_normal_def)

lemma getStaticExplanations_allowed:
  assumes "list_all (\<lambda>c. c \<in> set ALLOWED_REASON_CODES) codes"
  shows "getStaticExplanations codes language = map (map_of (REASON_TEMPLATES language)) codes"
proof -
  have "or_else (map_of (REASON_TEMPLATES language) c) d = map_of (REASON_TEMPLATES language) c"
    if "c \<in> set ALLOWED_REASON_CODES" for c d
    using template_lookup [OF that, of language] by (auto simp: or_else_def)
  with assms show ?thesis
    by (auto simp: getStaticExplanations_def Let_def list_all_iff)
qed

lemma join_nonempty:
  assumes "xs \<noteq> []" and "list_all (\<lambda>x. \<exists>s. x = Some s \<and> s \<noteq> []) xs"
  shows "join sep xs \<noteq> []"
proof (cases xs)
  case Nil
  with assms show ?thesis by simp
next
  case (Cons x ys)
  with assms obtain s where "x = Some s" "s \<noteq> []" by auto
  with Cons show ?thesis by (cases ys) auto
qed

lemma sanitized_all_allowed:
  "list_all (\<lambda>c. c \<in> set ALLOWED_REASON_CODES) (sanitizeReasonCodes cm codes)"
  using sanitizeReasonCodes_allowed by (auto simp: list_all_iff)

lemma fallback_sanitized:
  "fallback (sanitizeReasonCodes cm codes) language =
     join [10] (map (map_of (REASON_TEMPLATES language)) (sanitizeReasonCodes cm codes))"
  by (simp add: fallback_def getStaticExplanations_allowed [OF sanitized_all_allowed])

lemma sanitized_lookups:
  "list_all (\<lambda>c. \<exists>s. map_of (REASON_TEMPLATES language) c = Some s \<and> s \<noteq> [])
     (sanitizeReasonCodes cm codes)"
  using sanitizeReasonCodes_allowed template_lookup by (auto simp: list_all_iff)

lemma fallback_nonempty: "fallback (sanitizeReasonCodes cm codes) language \<noteq> []"
  unfolding fallback_sanitized
  using sanitizeReasonCodes_nonempty [of cm codes] sanitized_lookups [of language cm codes]
  by (intro join_nonempty) (auto simp: list_all_iff)

lemma tryBody_nonempty:
  assumes "tryBody lc fetch request (sanitizeReasonCodes cm codes) language = Inr text"
  shows "text \<noteq> []"
  using assms fallback_nonempty [of cm codes language]
  by (auto simp: tryBody_def Let_def split: sum.splits if_splits json.splits)

lemma generate_cases:
  "generateGeminiExplanation uc lc key fetch r codes language =
     (if key = [] then Inr (fallback (sanitizeReasonCodes lc codes) language)
      else case tryBody lc fetch
                  (prompt (sanitizeRiskLevel uc r) (sanitizeReasonCodes lc codes) language)
                  (sanitizeReasonCodes lc codes) language of
             Inr text \<Rightarrow> Inr text
           | Inl e \<Rightarrow> Inr (fallback (sanitizeReasonCodes lc codes) language))"
  by (simp add: generateGeminiExplanation_def Let_def split: sum.splits)

lemma generate_resolves:
  "\<exists>text. generateGeminiExplanation uc lc key fetch r codes language = Inr text \<and> text \<noteq> []"
  using fallback_nonempty [of lc codes language] tryBody_nonempty [of lc fetch _ lc codes language]
  by (auto simp: generate_cases split: sum.splits)

lemma tryBody_fallback_cases:
  fixes lc fetch request safe language
  defines "T \<equiv> tryBody lc fetch request safe language"
  shows "fetch request = Inl e \<Longrightarrow> T = Inl e"
    and "fetch request = Inr resp \<Longrightarrow> \<not> ok resp \<Longrightarrow> T = Inr (fallback safe language)"
    and "fetch request = Inr resp \<Longrightarrow> json_body resp = Inl e \<Longrightarrow>
           T = Inl e \<or> T = Inr (fallback safe language)"
    and "fetch request = Inr resp \<Longrightarrow> json_body resp = Inr data \<Longrightarrow>
           extractText data = Inr (JStr t) \<Longrightarrow>
           trim t = [] \<or> (\<exists>w \<in> set blockedWords. includes_str (toLowerCase lc t) w) \<Longrightarrow>
           T = Inr (fallback safe language)"
  unfolding T_def
  by (auto simp: tryBody_def Let_def list_ex_iff split: sum.splits if_splits json.splits)

text \<open>
  Claim C3. For every risk level, list of reason codes and supported language, whatever
  the key and whatever the service does, the promise resolves (it is never rejected) to
  a string that is not empty. In every failure branch the result is the fallback: when
  no key is configured; when \<open>fetch\<close> rejects (timeout or transport error); when the
  response is not a success; when its body is not JSON; when the generated text is empty
  or only white space; when the lower-cased text contains a blocked word, so in
  particular when the text contains a blocked word in any mix of ASCII upper and lower
  case. The fallback is the newline-join of the template lookups of the sanitized codes
  in the requested language, each of which is a sentence of the table and not empty.
\<close>

theorem generateGeminiExplanation_spec:
  fixes uc lc key fetch riskLevel reasonCodes language
  defines "safe \<equiv> sanitizeReasonCodes lc reasonCodes"
  defines "request \<equiv> prompt (sanitizeRiskLevel uc riskLevel) safe language"
  defines "result \<equiv> generateGeminiExplanation uc lc key fetch riskLevel reasonCodes language"
  shows
    "(\<exists>text. result = Inr text \<and> text \<noteq> []) \<and>
     (key = [] \<longrightarrow> result = Inr (fallback safe language)) \<and>
     (fetch request = Inl e1 \<longrightarrow> result = Inr (fallback safe language)) \<and>
     (fetch request = Inr r2 \<and> \<not> ok r2 \<longrightarrow> result = Inr (fallback safe language)) \<and>
     (fetch request = Inr r3 \<and> json_body r3 = Inl e3 \<longrightarrow>
        result = Inr (fallback safe language)) \<and>
     (fetch request = Inr r4 \<and> json_body r4 = Inr d4 \<and> extractText d4 = Inr (JStr t4) \<and>
        trim t4 = [] \<longrightarrow> result = Inr (fallback safe language)) \<and>
     (fetch request = Inr r5 \<and> json_body r5 = Inr d5 \<and> extractText d5 = Inr (JStr t5) \<and>
        w5 \<in> set blockedWords \<and> includes_str (toLowerCase lc t5) w5 \<longrightarrow>
        result = Inr (fallback safe language)) \<and>
     (fetch request = Inr r6 \<and> json_body r6 = Inr d6 \<and> extractText d6 = Inr (JStr t6) \<and>
        includes_str t6 v6 \<and> list_all (\<lambda>c. c < 128) v6 \<and>
        map lowerUnit v6 \<in> set blockedWords \<longrightarrow>
        result = Inr (fallback safe language)) \<and>
     fallback safe language = join [10] (map (map_of (REASON_TEMPLATES language)) safe) \<and>
     list_all (\<lambda>c. \<exists>s. map_of (REASON_TEMPLATES language) c = Some s \<and> s \<noteq> []) safe"
proof -
  note branch = tryBody_fallback_cases [where fetch = fetch and request = request and lc = lc
      and safe = safe and language = language]
  have unfold: "result =
     (if key = [] then Inr (fallback safe language)
      else case tryBody lc fetch request safe language of
             Inr text \<Rightarrow> Inr text
           | Inl e \<Rightarrow> Inr (fallback safe language))"
    unfolding result_def request_def safe_def by (rule generate_cases)
  have c1: "\<exists>text. result = Inr text \<and> text \<noteq> []"
    unfolding result_def by (rule generate_resolves)
  have c2: "key = [] \<longrightarrow> result = Inr (fallback safe language)"
    by (simp add: unfold)
  have c3: "fetch request = Inl e1 \<longrightarrow> result = Inr (fallback safe language)"
    using branch(1) [of e1] by (auto simp: unfold)
  have c4: "fetch request = Inr r2 \<and> \<not> ok r2 \<longrightarrow> result = Inr (fallback safe language)"
    using branch(2) [of r2] by (auto simp: unfold)
  have c5: "fetch request = Inr r3 \<and> json_body r3 = Inl e3 \<longrightarrow>
        result = Inr (fallback safe language)"
    using branch(3) [of r3 e3] by (auto simp: unfold)
  have c6: "fetch request = Inr r4 \<and> json_body r4 = Inr d4 \<and> extractText d4 = Inr (JStr t4) \<and>
        trim t4 = [] \<longrightarrow> result = Inr (fallback safe language)"
    using branch(4) [of r4 d4 t4] by (auto simp: unfold)
  have c7: "fetch request = Inr r \<and> json_body r = Inr d \<and> extractText d = Inr (JStr t) \<and>
        w \<in> set blockedWords \<and> includes_str (toLowerCase lc t) w \<longrightarrow>
        result = Inr (fallback safe language)" for r d t w
  proof (intro impI, elim conjE)
    assume h: "fetch request = Inr r" "json_body r = Inr d" "extractText d = Inr (JStr t)"
      "w \<in> set blockedWords" "includes_str (toLowerCase lc t) w"
    then have "trim t = [] \<or> (\<exists>w \<in> set blockedWords. includes_str (toLowerCase lc t) w)"
      by blast
    from branch(4) [OF h(1-3) this] show "result = Inr (fallback safe language)"
      by (simp add: unfold)
  qed
  have c8: "fetch request = Inr r6 \<and> json_body r6 = Inr d6 \<and> extractText d6 = Inr (JStr t6) \<and>
        includes_str t6 v6 \<and> list_all (\<lambda>c. c < 128) v6 \<and>
        map lowerUnit v6 \<in> set blockedWords \<longrightarrow>
        result = Inr (fallback safe language)"
    using c7 [of r6 d6 t6 "map lowerUnit v6"] toLowerCase_includes [of t6 v6 lc] by blast
  have c9: "fallback safe language = join [10] (map (map_of (REASON_TEMPLATES language)) safe)"
    unfolding safe_def by (rule fallback_sanitized)
  have c10: "list_all (\<lambda>c. \<exists>s. map_of (REASON_TEMPLATES language) c = Some s \<and> s \<noteq> []) safe"
    unfolding safe_def by (rule sanitized_lookups)
  from c1 c2 c3 c4 c5 c6 c7 [of r5 d5 t5 w5] c8 c9 c10 show ?thesis by blast
qed

text \<open>A reply whose text contains FRAUD in upper case is replaced by the English
  template of the one sanitized code.\<close>

theorem generateGeminiExplanation_spec_witness:
  "generateGeminiExplanation identity_case identity_case (str ''secret'')
     (\<lambda>request. Inr (gemini_reply (str ''This looks like FRAUD.'')))
     (str ''HIGH'') [str ''cross_district''] En =
   Inr (str ''LPG refills detected across different districts'')"
proof -
  let ?fetch = "\<lambda>request::jsstring. Inr (gemini_reply (str ''This looks like FRAUD.'')) :: js_error + http_response"
  let ?d = "JObj [(str ''candidates'',
        JArr [JObj [(str ''content'',
          JObj [(str ''parts'', JArr [JObj [(str ''text'', JStr (str ''This looks like FRAUD.''))]])])]])]"
  have body: "json_body (gemini_reply (str ''This looks like FRAUD.'')) = Inr ?d"
    by (simp add: gemini_reply_def)
  have extracted: "extractText ?d = Inr (JStr (str ''This looks like FRAUD.''))"
    by (simp add: extractText_def opt_chain_def getProp_def index0_def truthy_def str_def)
  have occurs: "includes_str (str ''This looks like FRAUD.'') (str ''FRAUD'')"
    by (simp add: str_def)
  have ascii: "list_all (\<lambda>c. c < 128) (str ''FRAUD'')"
    by (simp add: str_def)
  have blocked: "map lowerUnit (str ''FRAUD'') \<in> set blockedWords"
    by (simp add: blockedWords_def str_def lowerUnit_def)
  have safe: "sanitizeReasonCodes identity_case [str ''cross_district''] = [str ''cross_district'']"
    by (simp add: sanitizeReasonCodes_survivors cleanCode_def ALLOWED_REASON_CODES_def string_defs)
  have fb: "fallback [str ''cross_district''] En = str ''LPG refills detected across different districts''"
    by (simp add: fallback_def getStaticExplanations_def or_else_def str_def)
  from generateGeminiExplanation_spec
    [where uc = identity_case and lc = identity_case and key = "str ''secret''"
       and fetch = ?fetch and riskLevel = "str ''HIGH''"
       and reasonCodes = "[str ''cross_district'']" and language = En
       and ?r6.0 = "gemini_reply (str ''This looks like FRAUD.'')" and ?d6.0 = ?d
       and ?t6.0 = "str ''This looks like FRAUD.''" and ?v6.0 = "str ''FRAUD''"]
  have "generateGeminiExplanation identity_case identity_case (str ''secret'') ?fetch
     (str ''HIGH'') [str ''cross_district''] En = Inr (fallback (sanitizeReasonCodes identity_case [str ''cross_district'']) En)"
    using body extracted occurs ascii blocked by blast
  then show ?thesis by (simp only: safe fb)
qed

section \<open>Spike detection\<close>

lemma exceeds_iff_above: "exceeds k ds d = above k ds d"
  by (auto simp: exceeds_def is_true_def sql_gt_def threshold_def avg_count_def std_count_def
      above_def)

lemma variance_nonneg: "0 \<le> variance ds"
  unfolding variance_def by (intro divide_nonneg_nonneg sum_list_nonneg) auto

lemma less_plus_sqrt:
  fixes a k v x :: real
  assumes "0 \<le> k" and "0 \<le> v"
  shows "(a + k * sqrt v < x) = (a < x \<and> k\<^sup>2 * v < (x - a)\<^sup>2)"
proof -
  have k: "k * sqrt v = sqrt (k\<^sup>2 * v)"
    using assms by (simp add: real_sqrt_mult)
  have nonneg: "0 \<le> sqrt (k\<^sup>2 * v)"
    using assms by simp
  show ?thesis
  proof (cases "a < x")
    case True
    then have "(sqrt (k\<^sup>2 * v) < x - a) = (k\<^sup>2 * v < (x - a)\<^sup>2)"
      by (metis diff_gt_0_iff_gt real_sqrt_abs real_sqrt_less_iff abs_of_pos)
    with True show ?thesis by (simp add: k less_diff_eq add.commute)
  next
    case False
    with nonneg have "\<not> a + sqrt (k\<^sup>2 * v) < x" by linarith
    with False show ?thesis by (simp add: k)
  qed
qed

lemma above_rational:
  assumes "0 \<le> k"
  shows "above k ds d =
     (2 \<le> length ds \<and> mean ds < real (anomaly_count d) \<and>
      k\<^sup>2 * variance ds < (real (anomaly_count d) - mean ds)\<^sup>2)"
  unfolding above_def less_plus_sqrt [OF assms variance_nonneg] by simp




lemma spikes_of_GET:
  "spikes_of (spikes_GET today (Inr ds)) = map toTemporalSpike (spike_query today ds)"
  by (simp add: spikes_of_def spikes_GET_def)

lemma spike_query_length:
  "length (spike_query today ds) = min 20 (length (spikes_ordered ds))"
  by (simp add: spike_query_def min.commute)

lemma spike_query_nth:
  assumes "i < length (spike_query today ds)"
  shows "spike_query today ds ! i =
     \<lparr>row_date = today - int (Suc i),
      row_spike_type = spike_type_of ds (spikes_ordered ds ! i),
      row_anomaly_count = anomaly_count (spikes_ordered ds ! i),
      row_avg_baseline = map_option (\<lambda>a. sql_round a 2) (avg_count ds),
      row_deviation_percentage = deviation_of ds (spikes_ordered ds ! i),
      row_affected_districts = [residence_district (spikes_ordered ds ! i)]\<rparr>"
  using assms by (simp add: spike_query_def nth_enumerate_eq)

lemma spikes_ordered_mset: "mset (spikes_ordered ds) = mset (filter (above 1.5 ds) ds)"
proof -
  have "exceeds 1.5 ds = above 1.5 ds" by (rule ext) (rule exceeds_iff_above)
  then show ?thesis by (simp add: spikes_ordered_def)
qed

lemma spikes_ordered_sorted:
  "sorted_wrt (\<lambda>a b. anomaly_count b \<le> anomaly_count a) (spikes_ordered ds)"
proof -
  have "sorted (map (\<lambda>d. - int (anomaly_count d)) (spikes_ordered ds))"
    unfolding spikes_ordered_def by (rule sorted_sort_key)
  then show ?thesis by (simp add: sorted_map)
qed


lemma spikes_length:
  "length (spikes_of (spikes_GET today (Inr ds))) = min 20 (length (spikes_ordered ds))"
  by (simp add: spikes_of_GET spike_query_length)

lemma spike_counts:
  "map spike_count (spikes_of (spikes_GET today (Inr ds))) =
     take 20 (map anomaly_count (spikes_ordered ds))"
proof (rule nth_equalityI)
  show "length (map spike_count (spikes_of (spikes_GET today (Inr ds)))) =
      length (take 20 (map anomaly_count (spikes_ordered ds)))"
    by (simp add: spikes_length min.commute)
next
  fix i
  assume "i < length (map spike_count (spikes_of (spikes_GET today (Inr ds))))"
  then have i: "i < length (spike_query today ds)" by (simp add: spikes_of_GET)
  then have "i < 20" "i < length (spikes_ordered ds)" by (simp_all add: spike_query_length)
  with i show "map spike_count (spikes_of (spikes_GET today (Inr ds))) ! i =
      take 20 (map anomaly_count (spikes_ordered ds)) ! i"
    by (simp add: spikes_of_GET spike_query_nth toTemporalSpike_def)
qed






lemma ordered_counts:
  "map anomaly_count (spikes_ordered ds) =
     rev (sort (map anomaly_count (filter (above 1.5 ds) ds)))"
proof -
  let ?L = "map anomaly_count (spikes_ordered ds)"
  have "sorted_wrt (\<lambda>a b. b \<le> a) ?L"
    using spikes_ordered_sorted [of ds] by (simp add: sorted_wrt_map)
  then have "sorted (rev ?L)" by (simp add: sorted_wrt_rev)
  moreover have "mset (rev ?L) = mset (map anomaly_count (filter (above 1.5 ds) ds))"
  proof -
    have "image_mset anomaly_count (mset (spikes_ordered ds)) =
        image_mset anomaly_count (mset (filter (above 1.5 ds) ds))"
      by (simp only: spikes_ordered_mset)
    then show ?thesis by simp
  qed
  ultimately have "sort (map anomaly_count (filter (above 1.5 ds) ds)) = rev ?L"
    by (intro properties_for_sort) simp_all
  then show ?thesis by simp
qed


lemma d100_length: "length districts100 = 100"
  by (simp add: districts100_def)

lemma d100_mean: "mean districts100 = 2389 / 100"
  by (simp add: mean_def districts100_def comp_def sum_list_triv)

lemma d100_variance: "variance districts100 = 19787579 / 9900"
  by (simp add: variance_def d100_mean)
     (simp add: districts100_def power2_eq_square comp_def sum_list_triv)

lemma d100_above:
  "d \<in> set districts100 \<Longrightarrow> above (3 / 2) districts100 d = (79 \<le> residence_district d)"
  by (simp add: above_rational d100_length d100_mean d100_variance)
     (auto simp add: districts100_def power2_eq_square)







lemma d100_filter:
  "filter (above (3 / 2) districts100) districts100 =
     map (\<lambda>i. \<lparr>residence_district = i, anomaly_count = i + 21\<rparr>) [79..<100]"
proof -
  have "filter (above (3 / 2) districts100) districts100 =
      filter (\<lambda>d. 79 \<le> residence_district d) districts100"
    by (intro filter_cong) (simp_all add: d100_above)
  also have "\<dots> = map (\<lambda>i. \<lparr>residence_district = i, anomaly_count = i + 21\<rparr>) [79..<100]"
    by (simp add: districts100_def filter_map comp_def)
  finally show ?thesis .
qed

text \<open>
  Claim C10. The answer never has more than 20 rows: it has as many rows as there are
  groups above \<open>mean + 1.5 * stddev\<close>, up to 20, and their counts are the 20 highest
  counts of those groups in descending order. When more than 20 groups are above the
  threshold the answer has exactly 20 rows and the other groups are left out.
\<close>

theorem spikes_limit:
  "length (spikes_of (spikes_GET today (Inr ds))) =
     min 20 (length (filter (above 1.5 ds) ds)) \<and>
   map spike_count (spikes_of (spikes_GET today (Inr ds))) =
     take 20 (rev (sort (map anomaly_count (filter (above 1.5 ds) ds)))) \<and>
   (20 < length (filter (above 1.5 ds) ds) \<longrightarrow>
      length (spikes_of (spikes_GET today (Inr ds))) = 20)"
proof -
  have "length (spikes_ordered ds) = length (filter (above 1.5 ds) ds)"
    using spikes_ordered_mset [of ds] by (metis size_mset)
  then have "length (spikes_of (spikes_GET today (Inr ds))) =
     min 20 (length (filter (above 1.5 ds) ds))"
    by (simp add: spikes_length)
  moreover have "map spike_count (spikes_of (spikes_GET today (Inr ds))) =
     take 20 (rev (sort (map anomaly_count (filter (above 1.5 ds) ds))))"
    by (simp add: spike_counts ordered_counts)
  ultimately show ?thesis by simp
qed

text \<open>Of the 21 districts of \<open>districts100\<close> above the threshold, the 20 with the counts
  120 down to 101 are returned.\<close>

theorem spikes_limit_witness:
  "20 < length (filter (above 1.5 districts100) districts100) \<and>
   length (spikes_of (spikes_GET 20000 (Inr districts100))) = 20 \<and>
   map spike_count (spikes_of (spikes_GET 20000 (Inr districts100))) =
     [120, 119, 118, 117, 116, 115, 114, 113, 112, 111,
      110, 109, 108, 107, 106, 105, 104, 103, 102, 101]"
proof -
  have many: "20 < length (filter (above 1.5 districts100) districts100)"
    by (simp add: d100_filter)
  have counts: "take 20 (rev (sort (map anomaly_count (filter (above 1.5 districts100) districts100)))) =
     [120, 119, 118, 117, 116, 115, 114, 113, 112, 111,
      110, 109, 108, 107, 106, 105, 104, 103, 102, 101]"
    by (simp add: d100_filter)
  from spikes_limit [where today = 20000 and ds = districts100] many counts show ?thesis by simp
qed




end
